theory Spec2Isabelle
  imports Complex_Main
begin

section \<open>Python text primitives used by the ledger\<close>

text \<open>
  Text is modelled as \<^typ>\<open>string\<close> restricted to ASCII: the digit, whitespace and
  case tables below are the ASCII parts of what Python's \<^verbatim>\<open>str\<close> methods and the
  \<^verbatim>\<open>decimal\<close> and \<^verbatim>\<open>_strptime\<close> parsers accept.
\<close>

datatype error =
    ValueError
  | InvalidOperation
  | Overflow
  | OverflowError
  | HTTPException nat

definition and_then :: "error + 'a \<Rightarrow> ('a \<Rightarrow> error + 'b) \<Rightarrow> error + 'b" where
  "and_then r f = (case r of Inl e \<Rightarrow> Inl e | Inr v \<Rightarrow> f v)"

definition is_digit :: "char \<Rightarrow> bool" where
  "is_digit c = (c \<in> set ''0123456789'')"

definition digit_val :: "char \<Rightarrow> nat" where
  "digit_val c =
     (case map_of (zip ''0123456789'' [0, 1, 2, 3, 4, 5, 6, 7, 8, 9]) c of
        Some n \<Rightarrow> n
      | None \<Rightarrow> 0)"

definition digit_char :: "nat \<Rightarrow> char" where
  "digit_char n = ''0123456789'' ! n"

text \<open>\<^verbatim>\<open>int(ds)\<close> on a string of decimal digits.\<close>

definition nat_of_digits :: "string \<Rightarrow> nat" where
  "nat_of_digits ds = foldl (\<lambda>acc c. acc * 10 + digit_val c) 0 ds"

text \<open>\<^verbatim>\<open>str(n)\<close> for a non-negative integer.\<close>

fun digits_of :: "nat \<Rightarrow> string" where
  "digits_of n = (if n < 10 then [digit_char n] else digits_of (n div 10) @ [digit_char (n mod 10)])"

declare digits_of.simps [simp del]

text \<open>\<^verbatim>\<open>len(str(n))\<close>: the number of decimal digits of a coefficient.\<close>

fun ndigits :: "nat \<Rightarrow> nat" where
  "ndigits n = (if n < 10 then 1 else Suc (ndigits (n div 10)))"

declare ndigits.simps [simp del]

text \<open>The ASCII characters for which \<^verbatim>\<open>str.isspace\<close> holds; \<^verbatim>\<open>str.strip()\<close> removes them.\<close>

definition is_space :: "char \<Rightarrow> bool" where
  "is_space c = (c \<in> set [CHR 0x09, CHR 0x0A, CHR 0x0B, CHR 0x0C, CHR 0x0D,
                           CHR 0x1C, CHR 0x1D, CHR 0x1E, CHR 0x1F, CHR 0x20])"

definition strip :: "string \<Rightarrow> string" where
  "strip s = rev (dropWhile is_space (rev (dropWhile is_space s)))"

definition lower_char :: "char \<Rightarrow> char" where
  "lower_char c =
     (case map_of (zip ''ABCDEFGHIJKLMNOPQRSTUVWXYZ'' ''abcdefghijklmnopqrstuvwxyz'') c of
        Some l \<Rightarrow> l
      | None \<Rightarrow> c)"

definition lower :: "string \<Rightarrow> string" where
  "lower s = map lower_char s"

section \<open>Money representation\<close>

subsection \<open>The \<^verbatim>\<open>decimal.Decimal\<close> operations behind \<^verbatim>\<open>parse_amount_to_cents\<close>\<close>

text \<open>
  A \<^verbatim>\<open>Decimal\<close> is a sign, a coefficient and an exponent, or an infinity, or a
  (quiet or signalling) NaN. The diagnostic digits of a NaN play no role here and are
  dropped. Arithmetic runs in the default context: precision 28, rounding
  \<^verbatim>\<open>ROUND_HALF_EVEN\<close>, \<^verbatim>\<open>Emin = -999999\<close>, \<^verbatim>\<open>Emax = 999999\<close>, no clamping, with the
  signals \<^verbatim>\<open>InvalidOperation\<close>, \<^verbatim>\<open>DivisionByZero\<close> and \<^verbatim>\<open>Overflow\<close> trapped, that is,
  raised as exceptions.
\<close>

datatype decimal =
    Finite bool nat int
  | Infinity bool
  | NaN bool bool

definition prec :: nat where "prec = 28"
definition Emax :: int where "Emax = 999999"
definition Emin :: int where "Emin = - 999999"
definition Etiny :: int where "Etiny = Emin - int prec + 1"
definition Etop :: int where "Etop = Emax - int prec + 1"

text \<open>
  The exponent part \<^verbatim>\<open>[-+]?\d+\<close> of a numeric string.
\<close>

definition parse_exponent :: "string \<Rightarrow> int option" where
  "parse_exponent s =
     (let (neg, ds) =
            (case s of
               [] \<Rightarrow> (False, s)
             | c # r \<Rightarrow> if c = CHR ''-'' then (True, r)
                        else if c = CHR ''+'' then (False, r) else (False, s))
      in if ds \<noteq> [] \<and> list_all is_digit ds
         then Some (if neg then - int (nat_of_digits ds) else int (nat_of_digits ds))
         else None)"

text \<open>
  The limits of the \<^verbatim>\<open>decimal\<close> module on a 64-bit platform: the largest exponent a
  context can have, and the smallest exponent a number can have.
\<close>

definition MAX_EMAX :: int where "MAX_EMAX = 999999999999999999"
definition MIN_ETINY :: int where "MIN_ETINY = - 1999999999999999997"

text \<open>
  The number alternative of the parser,
  \<^verbatim>\<open>(?=\d|\.\d)(\d*)(\.(\d*))?(E[-+]?\d+)?\Z\<close>, matched ignoring case. The
  conversion is exact or fails: a number whose adjusted exponent lies above \<open>MAX_EMAX\<close>,
  or whose exponent lies below \<open>MIN_ETINY\<close>, is refused, a zero included.
\<close>

definition parse_number :: "bool \<Rightarrow> string \<Rightarrow> decimal option" where
  "parse_number sign r =
     (let intpart = takeWhile is_digit r;
          rest1 = dropWhile is_digit r;
          has_point = (rest1 \<noteq> [] \<and> hd rest1 = CHR ''.'');
          fracpart = (if has_point then takeWhile is_digit (tl rest1) else []);
          rest2 = (if has_point then dropWhile is_digit (tl rest1) else rest1)
      in if intpart = [] \<and> fracpart = [] then None
         else
           (case (if rest2 = [] then Some 0
                  else if hd rest2 = CHR ''e'' \<or> hd rest2 = CHR ''E''
                       then parse_exponent (tl rest2) else None) of
              None \<Rightarrow> None
            | Some ex \<Rightarrow>
                let coeff = nat_of_digits (intpart @ fracpart);
                    e = ex - int (length fracpart)
                in if e + int (ndigits coeff) - 1 > MAX_EMAX \<or> e < MIN_ETINY then None
                   else Some (Finite sign coeff e)))"

text \<open>
  \<^verbatim>\<open>Decimal(value)\<close> for a string: surrounding whitespace is stripped, underscores are
  removed, an optional sign is read, and the rest is a number, \<^verbatim>\<open>Inf\<close>, \<^verbatim>\<open>Infinity\<close>,
  or \<^verbatim>\<open>NaN\<close>/\<^verbatim>\<open>sNaN\<close> followed by diagnostic digits. \<open>None\<close> is the exception
  \<^verbatim>\<open>decimal.InvalidOperation\<close> (conversion syntax). The constructor does not round.
\<close>

definition decimal_of_string :: "string \<Rightarrow> decimal option" where
  "decimal_of_string v =
     (let s = filter (\<lambda>c. c \<noteq> CHR ''_'') (strip v);
          (sign, r) =
            (case s of
               [] \<Rightarrow> (False, s)
             | c # r' \<Rightarrow> if c = CHR ''-'' then (True, r')
                         else if c = CHR ''+'' then (False, r') else (False, s));
          lr = lower r
      in if lr = ''inf'' \<or> lr = ''infinity'' then Some (Infinity sign)
         else if take 3 lr = ''nan'' \<and> list_all is_digit (drop 3 lr) then Some (NaN sign False)
         else if take 4 lr = ''snan'' \<and> list_all is_digit (drop 4 lr) then Some (NaN sign True)
         else parse_number sign r)"

text \<open>
  The quotient \<open>a / b\<close> of two naturals rounded to the nearest natural, a tie going
  to the even neighbour.
\<close>

definition round_half_even_div :: "nat \<Rightarrow> nat \<Rightarrow> nat" where
  "round_half_even_div a b =
     (let q = a div b; r = a mod b
      in if 2 * r < b then q
         else if 2 * r > b then q + 1
         else if even q then q else q + 1)"

text \<open>
  Rounding a coefficient \<open>c\<close> by dropping its last \<open>k\<close> digits, half to even: what
  \<^verbatim>\<open>_round_half_even\<close> decides on the digit string, computed on the number.
\<close>

definition round_half_even_drop :: "nat \<Rightarrow> nat \<Rightarrow> nat" where
  "round_half_even_drop c k = round_half_even_div c (10 ^ k)"

text \<open>
  \<^verbatim>\<open>Decimal._fix(context)\<close>: round the result of an operation to the context. A zero keeps
  its sign and has its exponent clamped; a coefficient of more than \<open>prec\<close> digits, or a
  subnormal one, is rounded; an adjusted exponent above \<open>Emax\<close> raises \<^verbatim>\<open>Overflow\<close>.
\<close>

definition decimal_fix :: "decimal \<Rightarrow> error + decimal" where
  "decimal_fix d =
     (case d of
        Finite sign c e \<Rightarrow>
          if c = 0 then Inr (Finite sign 0 (min (max e Etiny) Emax))
          else
            let exp_min0 = int (ndigits c) + e - int prec
            in if exp_min0 > Etop then Inl Overflow
               else
                 let exp_min = (if exp_min0 < Etiny then Etiny else exp_min0)
                 in if e < exp_min
                    then
                      let coeff = round_half_even_drop c (nat (exp_min - e));
                          (coeff', exp_min') =
                             (if ndigits coeff > prec then (coeff div 10, exp_min + 1)
                              else (coeff, exp_min))
                      in if exp_min' > Etop then Inl Overflow
                         else Inr (Finite sign coeff' exp_min')
                    else Inr d
      | _ \<Rightarrow> Inr d)"

text \<open>
  \<^verbatim>\<open>value * 100\<close>: a signalling NaN raises, a quiet NaN and an infinity pass through,
  and a finite product is rounded to the context.
\<close>

definition mul_100 :: "decimal \<Rightarrow> error + decimal" where
  "mul_100 d =
     (case d of
        NaN sign signalling \<Rightarrow> if signalling then Inl InvalidOperation else Inr (NaN sign False)
      | Infinity sign \<Rightarrow> Inr (Infinity sign)
      | Finite sign c e \<Rightarrow> decimal_fix (Finite sign (c * 100) e))"

text \<open>\<^verbatim>\<open>Decimal._rescale(0, ROUND_HALF_EVEN)\<close> on a finite non-zero number.\<close>

definition rescale_0 :: "bool \<Rightarrow> nat \<Rightarrow> int \<Rightarrow> decimal" where
  "rescale_0 sign c e =
     (if e \<ge> 0 then Finite sign (c * 10 ^ nat e) 0
      else Finite sign (round_half_even_drop c (nat (- e))) 0)"

text \<open>
  \<^verbatim>\<open>d.quantize(Decimal("1"))\<close>: round to exponent 0. An infinity, and a result of more
  than \<open>prec\<close> digits, raise \<^verbatim>\<open>InvalidOperation\<close>.
\<close>

definition quantize_1 :: "decimal \<Rightarrow> error + decimal" where
  "quantize_1 d =
     (case d of
        NaN sign signalling \<Rightarrow> if signalling then Inl InvalidOperation else Inr (NaN sign False)
      | Infinity sign \<Rightarrow> Inl InvalidOperation
      | Finite sign c e \<Rightarrow>
          if c = 0 then decimal_fix (Finite sign 0 0)
          else
            let self_adjusted = e + int (ndigits c) - 1
            in if self_adjusted > Emax then Inl InvalidOperation
               else if self_adjusted + 1 > int prec then Inl InvalidOperation
               else
                 (case rescale_0 sign c e of
                    Finite s' c' e' \<Rightarrow>
                      if e' + int (ndigits c') - 1 > Emax then Inl InvalidOperation
                      else if ndigits c' > prec then Inl InvalidOperation
                      else decimal_fix (Finite s' c' e')
                  | other \<Rightarrow> Inr other))"

text \<open>\<^verbatim>\<open>int(d)\<close>: truncation towards zero; NaN and infinity raise.\<close>

definition int_of_decimal :: "decimal \<Rightarrow> error + int" where
  "int_of_decimal d =
     (case d of
        NaN sign signalling \<Rightarrow> Inl ValueError
      | Infinity sign \<Rightarrow> Inl OverflowError
      | Finite sign c e \<Rightarrow>
          let m = (if e \<ge> 0 then int c * 10 ^ nat e else int (c div 10 ^ nat (- e)))
          in Inr (if sign then - m else m))"

subsection \<open>\<^verbatim>\<open>parse_amount_to_cents\<close> and \<^verbatim>\<open>cents_to_display\<close>\<close>

text \<open>
  Only the construction of the \<^verbatim>\<open>Decimal\<close> sits inside the \<^verbatim>\<open>try\<close>: its
  \<^verbatim>\<open>InvalidOperation\<close> becomes \<^verbatim>\<open>ValueError("Invalid amount")\<close>; what the product,
  \<^verbatim>\<open>quantize\<close> and \<^verbatim>\<open>int\<close> raise propagates unchanged.
\<close>

definition parse_amount_to_cents :: "string \<Rightarrow> error + int" where
  "parse_amount_to_cents amount_str =
     (case decimal_of_string amount_str of
        None \<Rightarrow> Inl ValueError
      | Some v \<Rightarrow> and_then (and_then (mul_100 v) quantize_1) int_of_decimal)"

text \<open>
  \<^verbatim>\<open>cents / 100\<close> is Python's true division of two integers: the IEEE 754 double nearest
  to the exact quotient (ties to even), or \<^verbatim>\<open>OverflowError\<close> when that is beyond the
  double range. A double is kept as sign, integer mantissa \<open>m\<close> and exponent \<open>k\<close>,
  standing for \<open>m * 2 ^ k\<close>. The quotient of a non-zero integer by 100 is at least
  \<open>1/100\<close> in magnitude, so it is never subnormal.
\<close>

datatype float = Float bool nat int

fun bit_length :: "nat \<Rightarrow> nat" where
  "bit_length n = (if n = 0 then 0 else Suc (bit_length (n div 2)))"

declare bit_length.simps [simp del]

text \<open>
  The binary exponent \<open>e\<close> of the quotient \<open>a / 100\<close> for \<open>a > 0\<close>, that is,
  \<open>2 ^ e \<le> a / 100 < 2 ^ (e + 1)\<close>, found from the bit lengths of \<open>a\<close> and of 100.
\<close>

definition quotient_exponent :: "nat \<Rightarrow> int" where
  "quotient_exponent a =
     (let d = int (bit_length a) - 7
      in if (if d \<ge> 0 then 100 * 2 ^ nat d \<le> a else 100 \<le> a * 2 ^ nat (- d))
         then d else d - 1)"

definition true_divide_100 :: "int \<Rightarrow> error + float" where
  "true_divide_100 c =
     (if c = 0 then Inr (Float False 0 0)
      else
        let a = nat \<bar>c\<bar>;
            k = quotient_exponent a - 52;
            m = (if k \<ge> 0 then round_half_even_div a (100 * 2 ^ nat k)
                 else round_half_even_div (a * 2 ^ nat (- k)) 100)
        in if k > 971 \<or> (k = 971 \<and> m = 2 ^ 53) then Inl OverflowError
           else Inr (Float (c < 0) m k))"

text \<open>
  The format \<^verbatim>\<open>:.2f\<close> prints the exact binary value rounded to two decimals, half to
  even, without grouping separators.
\<close>

definition format_2f :: "float \<Rightarrow> string" where
  "format_2f x =
     (case x of Float sign m k \<Rightarrow>
        let n = (if k \<ge> 0 then m * 2 ^ nat k * 100
                 else round_half_even_div (m * 100) (2 ^ nat (- k)))
        in (if sign then ''-'' else []) @ digits_of (n div 100) @ ''.'' @
           [digit_char (n mod 100 div 10), digit_char (n mod 10)])"

definition cents_to_display :: "int \<Rightarrow> error + string" where
  "cents_to_display cents =
     (case true_divide_100 cents of Inl err \<Rightarrow> Inl err | Inr x \<Rightarrow> Inr (format_2f x))"

section \<open>Dates and integers read from request text\<close>

datatype date = Date (year: nat) (month: nat) (day: nat)

definition date_le :: "date \<Rightarrow> date \<Rightarrow> bool" where
  "date_le a b =
     (year a < year b \<or>
      (year a = year b \<and> (month a < month b \<or> (month a = month b \<and> day a \<le> day b))))"

definition is_leap :: "nat \<Rightarrow> bool" where
  "is_leap y = (y mod 4 = 0 \<and> (y mod 100 \<noteq> 0 \<or> y mod 400 = 0))"

definition days_in_month :: "nat \<Rightarrow> nat \<Rightarrow> nat" where
  "days_in_month y m =
     (if m = 2 then (if is_leap y then 29 else 28)
      else if m = 4 \<or> m = 6 \<or> m = 9 \<or> m = 11 then 30 else 31)"

text \<open>\<^verbatim>\<open>datetime.date(y, m, d)\<close>; \<open>None\<close> is its \<^verbatim>\<open>ValueError\<close>.\<close>

definition make_date :: "nat \<Rightarrow> nat \<Rightarrow> nat \<Rightarrow> date option" where
  "make_date y m d =
     (if 1 \<le> y \<and> y \<le> 9999 \<and> 1 \<le> m \<and> m \<le> 12 \<and> 1 \<le> d \<and> d \<le> days_in_month y m
      then Some (Date y m d) else None)"

definition nonzero_digit :: "char \<Rightarrow> bool" where
  "nonzero_digit c = (c \<in> set ''123456789'')"

text \<open>The directive \<^verbatim>\<open>%m\<close>, the regular expression \<^verbatim>\<open>1[0-2]|0[1-9]|[1-9]\<close>.\<close>

definition match_month :: "string \<Rightarrow> (nat \<times> string) option" where
  "match_month s =
     (case s of
        [] \<Rightarrow> None
      | [a] \<Rightarrow> if nonzero_digit a then Some (digit_val a, []) else None
      | a # b # r \<Rightarrow>
          if a = CHR ''1'' \<and> b \<in> set ''012'' then Some (10 + digit_val b, r)
          else if a = CHR ''0'' \<and> nonzero_digit b then Some (digit_val b, r)
          else if nonzero_digit a then Some (digit_val a, b # r)
          else None)"

text \<open>The directive \<^verbatim>\<open>%d\<close>, the regular expression \<^verbatim>\<open>3[0-1]|[1-2]\d|0[1-9]|[1-9]| [1-9]\<close>.\<close>

definition match_day :: "string \<Rightarrow> (nat \<times> string) option" where
  "match_day s =
     (case s of
        [] \<Rightarrow> None
      | [a] \<Rightarrow> if nonzero_digit a then Some (digit_val a, []) else None
      | a # b # r \<Rightarrow>
          if a = CHR ''3'' \<and> b \<in> set ''01'' then Some (30 + digit_val b, r)
          else if a \<in> set ''12'' \<and> is_digit b then Some (10 * digit_val a + digit_val b, r)
          else if a = CHR ''0'' \<and> nonzero_digit b then Some (digit_val b, r)
          else if nonzero_digit a then Some (digit_val a, b # r)
          else if a = CHR '' '' \<and> nonzero_digit b then Some (digit_val b, r)
          else None)"

text \<open>
  \<^verbatim>\<open>datetime.strptime(s, "%Y-%m-%d").date()\<close>: four year digits, a month and a day, each
  separated by a hyphen, nothing left over, and a date that exists. \<open>None\<close> is
  \<^verbatim>\<open>ValueError\<close>.
\<close>

definition strptime_date :: "string \<Rightarrow> date option" where
  "strptime_date s =
     (case s of
        y1 # y2 # y3 # y4 # h # s' \<Rightarrow>
          if list_all is_digit [y1, y2, y3, y4] \<and> h = CHR ''-''
          then
            (case match_month s' of
               None \<Rightarrow> None
             | Some (m, r) \<Rightarrow>
                 (case r of
                    [] \<Rightarrow> None
                  | c # r' \<Rightarrow>
                      if c = CHR ''-''
                      then (case match_day r' of
                              None \<Rightarrow> None
                            | Some (d, rest) \<Rightarrow>
                                if rest = [] then make_date (nat_of_digits [y1, y2, y3, y4]) m d
                                else None)
                      else None))
          else None
      | _ \<Rightarrow> None)"

text \<open>
  \<^verbatim>\<open>int(s)\<close> on request text: whitespace around, an optional sign, decimal digits with
  single underscores between them, at most 4300 digits. \<open>None\<close> is \<^verbatim>\<open>ValueError\<close>.
\<close>

definition is_int_space :: "char \<Rightarrow> bool" where
  "is_int_space c = (c \<in> set [CHR 0x09, CHR 0x0A, CHR 0x0B, CHR 0x0C, CHR 0x0D, CHR 0x20])"

fun int_digits_ok :: "string \<Rightarrow> bool" where
  "int_digits_ok [] = False"
| "int_digits_ok [c] = is_digit c"
| "int_digits_ok (c # d # r) =
     (is_digit c \<and> (if d = CHR ''_'' then int_digits_ok r else int_digits_ok (d # r)))"

definition py_int :: "string \<Rightarrow> int option" where
  "py_int s =
     (let t = rev (dropWhile is_int_space (rev (dropWhile is_int_space s)));
          (neg, ds) =
            (case t of
               [] \<Rightarrow> (False, t)
             | c # r \<Rightarrow> if c = CHR ''-'' then (True, r)
                        else if c = CHR ''+'' then (False, r) else (False, t));
          digits = filter (\<lambda>c. c \<noteq> CHR ''_'') ds
      in if int_digits_ok ds \<and> length digits \<le> 4300
         then Some (if neg then - int (nat_of_digits digits) else int (nat_of_digits digits))
         else None)"

section \<open>Domain model\<close>

text \<open>
  The rows of \<^verbatim>\<open>app/models.py\<close>, with the columns the handlers read. The timestamps
  \<^verbatim>\<open>created_at\<close> and \<^verbatim>\<open>updated_at\<close> are never read by a handler and are left out.
  A table is the list of its rows in insertion order; the store accepts every row.
\<close>

record user =
  u_id :: int
  u_org_id :: int
  u_name :: string
  u_role :: string

record category =
  c_id :: int
  c_org_id :: int
  c_name :: string
  c_type :: string

record transaction =
  tx_id :: int
  tx_org_id :: int
  tx_user_id :: int
  tx_account_id :: int
  tx_category_id :: int
  amount_cents :: int
  tx_type :: string
  occurred_at :: date
  tx_note :: "string option"
  tx_tags :: "string option"

record budget =
  b_id :: int
  b_org_id :: int
  b_name :: string
  b_period :: string
  b_category_id :: "int option"
  b_amount_cents :: int
  start_date :: date
  end_date :: date

record db =
  categories :: "category list"
  transactions :: "transaction list"
  budgets :: "budget list"

definition ROLE_ADMIN :: string where "ROLE_ADMIN = ''admin''"
definition ROLE_USER :: string where "ROLE_USER = ''user''"
definition ROLE_READONLY :: string where "ROLE_READONLY = ''readonly''"

text \<open>A handler answers with a redirect or with the values it hands to its template.\<close>

datatype 'a response = RedirectResponse string | TemplateResponse 'a

section \<open>Visibility and access policy\<close>

definition require_role :: "user \<Rightarrow> string set \<Rightarrow> error + unit" where
  "require_role usr allowed =
     (if u_role usr \<notin> allowed then Inl (HTTPException 403) else Inr ())"

text \<open>
  Every reading handler starts from the same two lines: the transactions of the acting
  user's organization, narrowed to the user's own rows when the role is \<^verbatim>\<open>user\<close>.
\<close>

definition scoped_query :: "db \<Rightarrow> user \<Rightarrow> transaction list" where
  "scoped_query d usr =
     (let query = filter (\<lambda>t. tx_org_id t = u_org_id usr) (transactions d)
      in if u_role usr = ROLE_USER then filter (\<lambda>t. tx_user_id t = u_id usr) query
         else query)"

section \<open>Query building blocks\<close>

text \<open>
  \<^verbatim>\<open>func.coalesce(func.sum(Transaction.amount_cents), 0)\<close> over the rows of a query
  narrowed to one transaction type.
\<close>

definition sum_of_type :: "string \<Rightarrow> transaction list \<Rightarrow> int" where
  "sum_of_type ty query = sum_list (map amount_cents (filter (\<lambda>t. tx_type t = ty) query))"

text \<open>
  \<^verbatim>\<open>order_by(Transaction.occurred_at.desc())\<close>. The store leaves the order of rows with
  equal dates open; here they keep their insertion order.
\<close>

fun insert_desc :: "transaction \<Rightarrow> transaction list \<Rightarrow> transaction list" where
  "insert_desc x [] = [x]"
| "insert_desc x (y # ys) =
     (if date_le (occurred_at y) (occurred_at x) then x # y # ys else y # insert_desc x ys)"

definition order_by_occurred_at_desc :: "transaction list \<Rightarrow> transaction list" where
  "order_by_occurred_at_desc query = foldr insert_desc query []"

text \<open>
  The SQL operator \<^verbatim>\<open>LIKE\<close> without an escape character, as SQLite (the engine of the
  test suite) evaluates it: \<^verbatim>\<open>%\<close> stands for any run of characters, \<^verbatim>\<open>_\<close> for any
  single character. Both operands reach it in lower case.
\<close>

fun like :: "string \<Rightarrow> string \<Rightarrow> bool" where
  "like [] [] = True"
| "like (c # cs) [] = False"
| "like [] (p # ps) = (p = CHR ''%'' \<and> like [] ps)"
| "like (c # cs) (p # ps) =
     (if p = CHR ''%'' then like (c # cs) ps \<or> like cs (p # ps)
      else (p = CHR ''_'' \<or> p = c) \<and> like cs ps)"

definition coalesce :: "string option \<Rightarrow> string" where
  "coalesce v = (case v of None \<Rightarrow> [] | Some s \<Rightarrow> s)"

text \<open>The keyword predicate that the listing and the export both build.\<close>

definition keyword_filter :: "string \<Rightarrow> transaction \<Rightarrow> bool" where
  "keyword_filter keyword t =
     (like (lower (coalesce (tx_note t))) (''%'' @ lower keyword @ ''%'') \<or>
      like (lower (coalesce (tx_tags t))) (''%'' @ lower keyword @ ''%''))"

text \<open>Python's truth test on an optional request parameter: present and not empty.\<close>

definition truthy :: "string option \<Rightarrow> bool" where
  "truthy v = (case v of None \<Rightarrow> False | Some s \<Rightarrow> s \<noteq> [])"

record params =
  start_date_raw :: "string option"
  end_date_raw :: "string option"
  category_id_raw :: "string option"
  account_id_raw :: "string option"
  min_amount :: "string option"
  max_amount :: "string option"
  keyword :: "string option"

text \<open>A date parameter: absent, empty and malformed all give \<open>None\<close>.\<close>

definition parse_date_param :: "string option \<Rightarrow> date option" where
  "parse_date_param raw = (if truthy raw then strptime_date (the raw) else None)"

type_synonym predicate = "transaction \<Rightarrow> bool"

text \<open>\<^verbatim>\<open>int(raw)\<close> on an identifier parameter; its \<^verbatim>\<open>ValueError\<close> is not caught.\<close>

definition int_param :: "string \<Rightarrow> error + int" where
  "int_param raw = (case py_int raw of None \<Rightarrow> Inl ValueError | Some n \<Rightarrow> Inr n)"

text \<open>
  An amount bound: \<^verbatim>\<open>ValueError\<close> from \<^verbatim>\<open>parse_amount_to_cents\<close> is caught and the
  bound dropped; any other exception leaves the handler.
\<close>

definition amount_bound :: "string option \<Rightarrow> (int \<Rightarrow> predicate) \<Rightarrow> predicate list
    \<Rightarrow> error + predicate list" where
  "amount_bound raw mk filters =
     (if truthy raw
      then (case parse_amount_to_cents (the raw) of
              Inr cents \<Rightarrow> Inr (filters @ [mk cents])
            | Inl ValueError \<Rightarrow> Inr filters
            | Inl err \<Rightarrow> Inl err)
      else Inr filters)"

section \<open>Transaction listing\<close>

text \<open>The list \<^verbatim>\<open>filters\<close> that \<^verbatim>\<open>transactions_list\<close> builds from the query string.\<close>

definition listing_filters :: "params \<Rightarrow> error + predicate list" where
  "listing_filters p =
     (let filters0 = [];
          start = parse_date_param (start_date_raw p);
          end_d = parse_date_param (end_date_raw p);
          filters1 = (case start of None \<Rightarrow> filters0
                      | Some sd \<Rightarrow> filters0 @ [\<lambda>t. date_le sd (occurred_at t)]);
          filters2 = (case end_d of None \<Rightarrow> filters1
                      | Some ed \<Rightarrow> filters1 @ [\<lambda>t. date_le (occurred_at t) ed])
      in and_then
           (if truthy (category_id_raw p)
            then and_then (int_param (the (category_id_raw p)))
                   (\<lambda>cid. Inr (filters2 @ [\<lambda>t. tx_category_id t = cid]))
            else Inr filters2)
           (\<lambda>filters3.
      and_then
           (if truthy (account_id_raw p)
            then and_then (int_param (the (account_id_raw p)))
                   (\<lambda>aid. Inr (filters3 @ [\<lambda>t. tx_account_id t = aid]))
            else Inr filters3)
           (\<lambda>filters4.
      and_then (amount_bound (min_amount p) (\<lambda>cents t. amount_cents t \<ge> cents) filters4)
           (\<lambda>filters5.
      and_then (amount_bound (max_amount p) (\<lambda>cents t. amount_cents t \<le> cents) filters5)
           (\<lambda>filters6.
      Inr (if truthy (keyword p) then filters6 @ [keyword_filter (the (keyword p))]
           else filters6))))))"

record listing =
  l_transactions :: "transaction list"
  l_income :: int
  l_expense :: int

definition transactions_list :: "db \<Rightarrow> user option \<Rightarrow> params \<Rightarrow> error + listing response" where
  "transactions_list d current p =
     (case current of
        None \<Rightarrow> Inr (RedirectResponse ''/login'')
      | Some usr \<Rightarrow>
          and_then (listing_filters p)
            (\<lambda>filters.
               let query = scoped_query d usr;
                   query' = (if filters \<noteq> []
                             then filter (\<lambda>t. list_all (\<lambda>f. f t) filters) query else query)
               in Inr (TemplateResponse
                    \<lparr> l_transactions = take 500 (order_by_occurred_at_desc query'),
                      l_income = sum_of_type ''income'' query',
                      l_expense = sum_of_type ''expense'' query' \<rparr>)))"

section \<open>Export\<close>

text \<open>
  The query of \<^verbatim>\<open>export_csv\<close>; the handler then writes one CSV row per transaction of
  the result, in this order. It reads no amount bound from the request.
\<close>

definition export_csv :: "db \<Rightarrow> user option \<Rightarrow> params \<Rightarrow> error + transaction list response" where
  "export_csv d current p =
     (case current of
        None \<Rightarrow> Inr (RedirectResponse ''/login'')
      | Some usr \<Rightarrow>
          let query0 = scoped_query d usr;
              query1 = (case parse_date_param (start_date_raw p) of None \<Rightarrow> query0
                        | Some sd \<Rightarrow> filter (\<lambda>t. date_le sd (occurred_at t)) query0);
              query2 = (case parse_date_param (end_date_raw p) of None \<Rightarrow> query1
                        | Some ed \<Rightarrow> filter (\<lambda>t. date_le (occurred_at t) ed) query1)
          in and_then
               (if truthy (category_id_raw p)
                then and_then (int_param (the (category_id_raw p)))
                       (\<lambda>cid. Inr (filter (\<lambda>t. tx_category_id t = cid) query2))
                else Inr query2)
               (\<lambda>query3.
             and_then
               (if truthy (account_id_raw p)
                then and_then (int_param (the (account_id_raw p)))
                       (\<lambda>aid. Inr (filter (\<lambda>t. tx_account_id t = aid) query3))
                else Inr query3)
               (\<lambda>query4.
                  let query5 = (if truthy (keyword p)
                                then filter (keyword_filter (the (keyword p))) query4
                                else query4)
                  in Inr (TemplateResponse (order_by_occurred_at_desc query5)))))"

section \<open>Budget tracking, dashboard and reports\<close>

text \<open>
  The spend query that \<^verbatim>\<open>dashboard\<close> and \<^verbatim>\<open>budgets_page\<close> both run for a budget: the
  organization's expenses in the budget window, narrowed to the budget's category when
  \<^verbatim>\<open>budget.category_id\<close> is truthy (neither \<^verbatim>\<open>None\<close> nor 0).
\<close>

definition budget_spent :: "db \<Rightarrow> user \<Rightarrow> budget \<Rightarrow> int" where
  "budget_spent d usr b =
     (let budget_query =
            filter (\<lambda>t. tx_org_id t = u_org_id usr \<and> tx_type t = ''expense'' \<and>
                        date_le (start_date b) (occurred_at t) \<and>
                        date_le (occurred_at t) (end_date b)) (transactions d);
          budget_query' =
            (case b_category_id b of
               None \<Rightarrow> budget_query
             | Some cid \<Rightarrow> if cid \<noteq> 0 then filter (\<lambda>t. tx_category_id t = cid) budget_query
                           else budget_query)
      in sum_list (map amount_cents budget_query'))"

record budget_summary =
  bs_budget :: budget
  bs_spent :: int
  bs_remaining :: int

record dashboard_view =
  dv_income :: int
  dv_expense :: int
  dv_budget_summaries :: "budget_summary list"

definition month_start_of :: "date \<Rightarrow> date" where
  "month_start_of today = Date (year today) (month today) 1"

definition year_start_of :: "date \<Rightarrow> date" where
  "year_start_of today = Date (year today) 1 1"

definition dashboard :: "db \<Rightarrow> user option \<Rightarrow> date \<Rightarrow> dashboard_view response" where
  "dashboard d current today =
     (case current of
        None \<Rightarrow> RedirectResponse ''/login''
      | Some usr \<Rightarrow>
          let tx_query = scoped_query d usr;
              month_query = filter (\<lambda>t. date_le (month_start_of today) (occurred_at t)) tx_query;
              bs = filter (\<lambda>b. b_org_id b = u_org_id usr) (budgets d)
          in TemplateResponse
               \<lparr> dv_income = sum_of_type ''income'' month_query,
                 dv_expense = sum_of_type ''expense'' month_query,
                 dv_budget_summaries =
                   map (\<lambda>b. \<lparr> bs_budget = b, bs_spent = budget_spent d usr b,
                               bs_remaining = b_amount_cents b - budget_spent d usr b \<rparr>) bs \<rparr>)"

fun insert_budget_desc :: "budget \<Rightarrow> budget list \<Rightarrow> budget list" where
  "insert_budget_desc x [] = [x]"
| "insert_budget_desc x (y # ys) =
     (if b_id y \<le> b_id x then x # y # ys else y # insert_budget_desc x ys)"

definition budgets_page :: "db \<Rightarrow> user option \<Rightarrow> (budget \<times> int) list response" where
  "budgets_page d current =
     (case current of
        None \<Rightarrow> RedirectResponse ''/login''
      | Some usr \<Rightarrow>
          let bs = foldr insert_budget_desc
                     (filter (\<lambda>b. b_org_id b = u_org_id usr) (budgets d)) []
          in TemplateResponse (map (\<lambda>b. (b, budget_spent d usr b)) bs))"

text \<open>\<^verbatim>\<open>sum_for_range\<close>, the local function of \<^verbatim>\<open>reports_page\<close>, over its base query.\<close>

definition sum_for_range :: "transaction list \<Rightarrow> date \<Rightarrow> int \<times> int" where
  "sum_for_range base_query start =
     (sum_list (map amount_cents
        (filter (\<lambda>t. date_le start (occurred_at t) \<and> tx_type t = ''income'') base_query)),
      sum_list (map amount_cents
        (filter (\<lambda>t. date_le start (occurred_at t) \<and> tx_type t = ''expense'') base_query)))"

fun insert_total_desc :: "string \<times> int \<Rightarrow> (string \<times> int) list \<Rightarrow> (string \<times> int) list" where
  "insert_total_desc x [] = [x]"
| "insert_total_desc x (y # ys) =
     (if snd y \<le> snd x then x # y # ys else y # insert_total_desc x ys)"

text \<open>
  The category breakdown: categories joined to transactions on the category id, the
  joined rows filtered by organization, type and month, grouped by category name and
  ordered by the group's sum, largest first. The filter names the organization only;
  the query does not start from \<^verbatim>\<open>base_query\<close>.
\<close>

definition category_breakdown :: "db \<Rightarrow> user \<Rightarrow> date \<Rightarrow> (string \<times> int) list" where
  "category_breakdown d usr month_start =
     (let joined = concat (map (\<lambda>c. map (\<lambda>t. (c_name c, t))
                       (filter (\<lambda>t. tx_category_id t = c_id c) (transactions d)))
                     (categories d));
          rows = filter (\<lambda>(n, t). tx_org_id t = u_org_id usr \<and> tx_type t = ''expense'' \<and>
                                   date_le month_start (occurred_at t)) joined;
          groups = map (\<lambda>n. (n, sum_list (map (\<lambda>(n', t). amount_cents t)
                                    (filter (\<lambda>(n', t). n' = n) rows))))
                     (remdups (map fst rows))
      in foldr insert_total_desc groups [])"

record report_view =
  rv_month_income :: int
  rv_month_expense :: int
  rv_year_income :: int
  rv_year_expense :: int
  rv_category_breakdown :: "(string \<times> int) list"

definition reports_page :: "db \<Rightarrow> user option \<Rightarrow> date \<Rightarrow> report_view response" where
  "reports_page d current today =
     (case current of
        None \<Rightarrow> RedirectResponse ''/login''
      | Some usr \<Rightarrow>
          let base_query = scoped_query d usr;
              (month_income, month_expense) = sum_for_range base_query (month_start_of today);
              (year_income, year_expense) = sum_for_range base_query (year_start_of today)
          in TemplateResponse
               \<lparr> rv_month_income = month_income, rv_month_expense = month_expense,
                 rv_year_income = year_income, rv_year_expense = year_expense,
                 rv_category_breakdown = category_breakdown d usr (month_start_of today) \<rparr>)"

section \<open>Write paths\<close>

record transaction_form =
  f_amount :: string
  f_type :: string
  f_occurred_at :: string
  f_category_id :: int
  f_account_id :: int
  f_note :: string
  f_tags :: string

text \<open>The primary key the store assigns to a new row: one more than the largest in use.\<close>

definition next_id :: "int list \<Rightarrow> int" where
  "next_id ids = fold max ids 0 + 1"

text \<open>\<^verbatim>\<open>value or None\<close> on a form field.\<close>

definition or_none :: "string \<Rightarrow> string option" where
  "or_none s = (if s = [] then None else Some s)"

text \<open>
  A write handler returns the store after the request together with its outcome: an
  exception, or the location it redirects to. The row is added only after the amount and
  the date have been read; an exception before that leaves the store as it was.
\<close>

definition transaction_create :: "db \<Rightarrow> user option \<Rightarrow> transaction_form \<Rightarrow> db \<times> (error + string)" where
  "transaction_create d current form =
     (case current of
        None \<Rightarrow> (d, Inr ''/login'')
      | Some usr \<Rightarrow>
          if u_role usr = ROLE_READONLY then (d, Inl (HTTPException 403))
          else
            (case parse_amount_to_cents (f_amount form) of
               Inl err \<Rightarrow> (d, Inl err)
             | Inr cents \<Rightarrow>
                 (case strptime_date (f_occurred_at form) of
                    None \<Rightarrow> (d, Inl ValueError)
                  | Some occurred \<Rightarrow>
                      let tx = \<lparr> tx_id = next_id (map tx_id (transactions d)),
                                 tx_org_id = u_org_id usr,
                                 tx_user_id = u_id usr,
                                 tx_account_id = f_account_id form,
                                 tx_category_id = f_category_id form,
                                 amount_cents = cents,
                                 tx_type = f_type form,
                                 occurred_at = occurred,
                                 tx_note = or_none (f_note form),
                                 tx_tags = or_none (f_tags form) \<rparr>
                      in (d\<lparr>transactions := transactions d @ [tx]\<rparr>, Inr ''/transactions''))))"

record budget_form =
  bf_name :: string
  bf_period :: string
  bf_amount :: string
  bf_start_date :: string
  bf_end_date :: string
  bf_category_id :: "int option"

definition budgets_create :: "db \<Rightarrow> user option \<Rightarrow> budget_form \<Rightarrow> db \<times> (error + string)" where
  "budgets_create d current form =
     (case current of
        None \<Rightarrow> (d, Inr ''/login'')
      | Some usr \<Rightarrow>
          if u_role usr = ROLE_READONLY then (d, Inl (HTTPException 403))
          else
            (case parse_amount_to_cents (bf_amount form) of
               Inl err \<Rightarrow> (d, Inl err)
             | Inr cents \<Rightarrow>
                 (case strptime_date (bf_start_date form) of
                    None \<Rightarrow> (d, Inl ValueError)
                  | Some sd \<Rightarrow>
                      (case strptime_date (bf_end_date form) of
                         None \<Rightarrow> (d, Inl ValueError)
                       | Some ed \<Rightarrow>
                           let b = \<lparr> b_id = next_id (map b_id (budgets d)),
                                     b_org_id = u_org_id usr,
                                     b_name = bf_name form,
                                     b_period = bf_period form,
                                     b_category_id = bf_category_id form,
                                     b_amount_cents = cents,
                                     start_date = sd,
                                     end_date = ed \<rparr>
                           in (d\<lparr>budgets := budgets d @ [b]\<rparr>, Inr ''/budgets'')))))"

section \<open>A small ledger used for concrete evaluation\<close>

definition alice :: user where
  "alice = \<lparr> u_id = 1, u_org_id = 1, u_name = ''Alice'', u_role = ''user'' \<rparr>"

definition bob :: user where
  "bob = \<lparr> u_id = 2, u_org_id = 1, u_name = ''Bob'', u_role = ''user'' \<rparr>"

definition carol :: user where
  "carol = \<lparr> u_id = 3, u_org_id = 1, u_name = ''Carol'', u_role = ''admin'' \<rparr>"

definition viewer :: user where
  "viewer = \<lparr> u_id = 4, u_org_id = 1, u_name = ''Viewer'', u_role = ''readonly'' \<rparr>"

definition guest :: user where
  "guest = \<lparr> u_id = 5, u_org_id = 1, u_name = ''Guest'', u_role = ''guest'' \<rparr>"

definition food :: category where
  "food = \<lparr> c_id = 1, c_org_id = 1, c_name = ''Food'', c_type = ''expense'' \<rparr>"

definition lunch :: transaction where
  "lunch = \<lparr> tx_id = 1, tx_org_id = 1, tx_user_id = 1, tx_account_id = 1, tx_category_id = 1,
             amount_cents = 200, tx_type = ''expense'', occurred_at = Date 2024 5 10,
             tx_note = Some ''lunch'', tx_tags = None \<rparr>"

definition dinner :: transaction where
  "dinner = \<lparr> tx_id = 2, tx_org_id = 1, tx_user_id = 2, tx_account_id = 1, tx_category_id = 1,
              amount_cents = 500, tx_type = ''expense'', occurred_at = Date 2024 5 11,
              tx_note = Some ''dinner'', tx_tags = None \<rparr>"

definition may_budget :: budget where
  "may_budget = \<lparr> b_id = 1, b_org_id = 1, b_name = ''May'', b_period = ''monthly'',
                  b_category_id = Some 0, b_amount_cents = 600,
                  start_date = Date 2024 5 1, end_date = Date 2024 5 31 \<rparr>"

definition ledger :: db where
  "ledger = \<lparr> categories = [food], transactions = [lunch, dinner], budgets = [may_budget] \<rparr>"

definition today0 :: date where
  "today0 = Date 2024 5 20"

definition no_params :: params where
  "no_params = \<lparr> start_date_raw = None, end_date_raw = None, category_id_raw = None,
                 account_id_raw = None, min_amount = None, max_amount = None, keyword = None \<rparr>"

definition coffee_form :: transaction_form where
  "coffee_form = \<lparr> f_amount = ''3.50'', f_type = ''expense'', f_occurred_at = ''2024-05-12'',
                   f_category_id = 1, f_account_id = 1, f_note = ''coffee'', f_tags = [] \<rparr>"

section \<open>Reference definitions the claims are compared with\<close>






text \<open>
  Whether an amount is written with a minus sign: the first character the \<^verbatim>\<open>Decimal\<close>
  constructor reads, once surrounding whitespace and underscores are dropped, is \<^verbatim>\<open>-\<close>.
\<close>

definition minus_signed :: "string \<Rightarrow> bool" where
  "minus_signed s =
     (case filter (\<lambda>c. c \<noteq> CHR ''_'') (strip s) of
        [] \<Rightarrow> False
      | c # r \<Rightarrow> c = CHR ''-'')"


definition coffee_budget_form :: budget_form where
  "coffee_budget_form = \<lparr> bf_name = ''Coffee'', bf_period = ''monthly'', bf_amount = ''3.50'',
                          bf_start_date = ''2024-05-12'', bf_end_date = ''2024-05-12'',
                          bf_category_id = None \<rparr>"

text \<open>
  The exact value of a finite \<^verbatim>\<open>Decimal\<close>, and what it means for an integer to be a
  rational number rounded to the nearest integer with a tie going to the even neighbour.
\<close>

definition decimal_value :: "decimal \<Rightarrow> rat" where
  "decimal_value v =
     (case v of
        Finite sg c e \<Rightarrow>
          (if sg then - 1 else 1) *
          (if e \<ge> 0 then of_nat (c * 10 ^ nat e) else of_nat c / of_nat (10 ^ nat (- e)))
      | _ \<Rightarrow> 0)"

definition is_nearest_even :: "rat \<Rightarrow> int \<Rightarrow> bool" where
  "is_nearest_even x n =
     (\<bar>of_int n - x\<bar> \<le> 1 / 2 \<and> (\<bar>of_int n - x\<bar> = 1 / 2 \<longrightarrow> even n))"

definition long_amount :: string where
  "long_amount = ''0.0050000000000000000000000000001''"

text \<open>
  The fixed two-decimal rendering of an amount of cents, without grouping separators:
  what \<^verbatim>\<open>cents_to_display\<close> is specified to return.
\<close>

definition two_decimal :: "int \<Rightarrow> string" where
  "two_decimal cents =
     (let a = nat \<bar>cents\<bar>
      in (if cents < 0 then ''-'' else []) @ digits_of (a div 100) @ ''.'' @
         [digit_char (a mod 100 div 10), digit_char (a mod 10)])"

section \<open>Evaluation on numerals\<close>

lemma ndigits_numeral [simp]:
  "ndigits (numeral k) = (if numeral k < (10::nat) then 1 else Suc (ndigits (numeral k div 10)))"
  by (rule ndigits.simps)

lemma ndigits_0 [simp]: "ndigits 0 = 1"
  by (simp add: ndigits.simps)

lemma ndigits_1 [simp]: "ndigits (Suc 0) = 1"
  by (simp add: ndigits.simps)

lemma digits_of_numeral [simp]:
  "digits_of (numeral k) =
     (if numeral k < (10::nat) then [digit_char (numeral k)]
      else digits_of (numeral k div 10) @ [digit_char (numeral k mod 10)])"
  by (rule digits_of.simps)

lemma digits_of_0 [simp]: "digits_of 0 = ''0''"
  by (simp add: digits_of.simps digit_char_def)

lemma digits_of_1 [simp]: "digits_of (Suc 0) = ''1''"
  by (simp add: digits_of.simps digit_char_def)

lemma bit_length_numeral [simp]:
  "bit_length (numeral k) = Suc (bit_length (numeral k div 2))"
  by (subst bit_length.simps) simp

lemma bit_length_0 [simp]: "bit_length 0 = 0"
  by (simp add: bit_length.simps)

lemma bit_length_1 [simp]: "bit_length (Suc 0) = 1"
  by (simp add: bit_length.simps)

lemmas text_defs = strip_def is_space_def is_digit_def digit_val_def digit_char_def
  nat_of_digits_def lower_def lower_char_def

lemmas decimal_defs = decimal_of_string_def parse_number_def parse_exponent_def
  MAX_EMAX_def MIN_ETINY_def
  mul_100_def decimal_fix_def quantize_1_def rescale_0_def int_of_decimal_def
  round_half_even_drop_def round_half_even_div_def prec_def Emax_def Emin_def Etiny_def Etop_def
  parse_amount_to_cents_def and_then_def Let_def

lemmas date_defs = strptime_date_def match_month_def match_day_def make_date_def
  days_in_month_def is_leap_def nonzero_digit_def date_le_def month_start_of_def
  year_start_of_def

lemmas ledger_defs = ledger_def alice_def bob_def carol_def viewer_def guest_def food_def
  lunch_def dinner_def may_budget_def today0_def no_params_def coffee_form_def
  ROLE_ADMIN_def ROLE_USER_def ROLE_READONLY_def

lemmas query_defs = scoped_query_def sum_of_type_def order_by_occurred_at_desc_def
  coalesce_def keyword_filter_def truthy_def parse_date_param_def int_param_def
  amount_bound_def listing_filters_def transactions_list_def export_csv_def
  budget_spent_def dashboard_def budgets_page_def sum_for_range_def category_breakdown_def
  reports_page_def py_int_def is_int_space_def

lemma parse_3: "parse_amount_to_cents ''3'' = Inr 300"
  by (simp add: decimal_defs text_defs)

lemma parse_3_50: "parse_amount_to_cents ''3.50'' = Inr 350"
  by (simp add: decimal_defs text_defs)

lemma parse_Infinity: "parse_amount_to_cents ''Infinity'' = Inl InvalidOperation"
  by (simp add: decimal_defs text_defs)

lemma parse_abc: "parse_amount_to_cents ''abc'' = Inl ValueError"
  by (simp add: decimal_defs text_defs)

lemma parse_empty: "parse_amount_to_cents [] = Inl ValueError"
  by (simp add: decimal_defs text_defs)

lemma parse_minus_5: "parse_amount_to_cents ''-5'' = Inr (- 500)"
  by (simp add: decimal_defs text_defs)

lemma parse_minus_0_001: "parse_amount_to_cents ''-0.001'' = Inr 0"
  by (simp add: decimal_defs text_defs)

lemma parse_5e_minus_1: "parse_amount_to_cents ''5e-1'' = Inr 50"
  by (simp add: decimal_defs text_defs)

lemma decimal_exponent_limit:
  "decimal_of_string ''0e999999999999999999'' = Some (Finite False 0 999999999999999999) \<and>
   parse_amount_to_cents ''0e999999999999999999'' = Inr 0 \<and>
   parse_amount_to_cents ''0e1000000000000000000'' = Inl ValueError \<and>
   parse_amount_to_cents ''1e-1999999999999999998'' = Inl ValueError"
  by (simp add: decimal_defs text_defs)

lemma strptime_2024_05_12: "strptime_date ''2024-05-12'' = Some (Date 2024 5 12)"
  by (simp add: date_defs text_defs)

section \<open>Visibility of transactions (C1)\<close>

text \<open>
  C1. Every transaction-reading operation of an actor with role \<^verbatim>\<open>user\<close> is to compute
  its result from that user's own transactions only, the category breakdown of the report
  included. The breakdown query of \<^verbatim>\<open>reports_page\<close> filters by organization and never
  by user: for Alice, who spent 200 on food in May, it reports 700, the 500 of Bob
  included, whereas the same query over Alice's own rows reports 200.
\<close>

theorem category_breakdown_reads_other_users:
  "u_role alice = ROLE_USER \<and>
   reports_page ledger (Some alice) today0 =
     TemplateResponse \<lparr> rv_month_income = 0, rv_month_expense = 200,
                        rv_year_income = 0, rv_year_expense = 200,
                        rv_category_breakdown = [(''Food'', 700)] \<rparr> \<and>
   category_breakdown
     (ledger\<lparr>transactions := filter (\<lambda>t. tx_user_id t = u_id alice) (transactions ledger)\<rparr>)
     alice (month_start_of today0) = [(''Food'', 200)]"
  by (simp add: query_defs ledger_defs date_defs)

section \<open>Export against listing (C2)\<close>

text \<open>
  C2. The export is to select exactly the rows the listing selects, an amount range
  included. \<^verbatim>\<open>export_csv\<close> never reads \<^verbatim>\<open>min_amount\<close> or \<^verbatim>\<open>max_amount\<close>: with
  \<^verbatim>\<open>min_amount=3\<close> the listing keeps only the 5.00 row, the export returns both rows.
\<close>

theorem export_ignores_amount_range:
  "transactions_list ledger (Some carol) (no_params\<lparr>min_amount := Some ''3''\<rparr>) =
     Inr (TemplateResponse \<lparr> l_transactions = [dinner], l_income = 0, l_expense = 500 \<rparr>) \<and>
   export_csv ledger (Some carol) (no_params\<lparr>min_amount := Some ''3''\<rparr>) =
     Inr (TemplateResponse [dinner, lunch])"
  by (simp add: query_defs ledger_defs date_defs parse_3 and_then_def)

section \<open>The listing on an amount bound the decimal context rejects (C4)\<close>

text \<open>
  C4. A listing is to treat an amount bound that cannot be used as absent, never as an
  error. \<^verbatim>\<open>parse_amount_to_cents\<close> turns into \<^verbatim>\<open>ValueError\<close> only what the \<^verbatim>\<open>Decimal\<close>
  constructor raises; \<^verbatim>\<open>Infinity\<close> is accepted by the constructor and rejected by
  \<^verbatim>\<open>quantize\<close> with \<^verbatim>\<open>InvalidOperation\<close>, which the listing does not catch, while a bound
  such as \<^verbatim>\<open>abc\<close> is dropped.
\<close>

theorem listing_fails_on_infinite_bound:
  "transactions_list ledger (Some carol) (no_params\<lparr>min_amount := Some ''Infinity''\<rparr>) =
     Inl InvalidOperation \<and>
   transactions_list ledger (Some carol) (no_params\<lparr>min_amount := Some ''abc''\<rparr>) =
     transactions_list ledger (Some carol) no_params"
  by (simp add: query_defs ledger_defs date_defs parse_Infinity parse_abc and_then_def)

section \<open>Attribution of created transactions (C10)\<close>

lemma transaction_create_success:
  assumes "transaction_create d (Some usr) form = (d', Inr loc)"
  shows "\<exists>tx. d' = d\<lparr>transactions := transactions d @ [tx]\<rparr> \<and>
              tx_org_id tx = u_org_id usr \<and> tx_user_id tx = u_id usr \<and>
              parse_amount_to_cents (f_amount form) = Inr (amount_cents tx)"
  using assms
  by (auto simp: transaction_create_def Let_def split: if_splits sum.splits option.splits)

text \<open>
  C10. Whenever \<^verbatim>\<open>transaction_create\<close> succeeds for an acting user, the store gains exactly
  one transaction, and that row carries the acting user's organization and id, whatever
  the form holds; without an acting user nothing is stored.
\<close>

theorem transaction_create_attribution:
  "transaction_create d None form = (d, Inr ''/login'') \<and>
   (\<forall>d' loc. transaction_create d (Some usr) form = (d', Inr loc) \<longrightarrow>
      (\<exists>tx. d' = d\<lparr>transactions := transactions d @ [tx]\<rparr> \<and>
            tx_org_id tx = u_org_id usr \<and> tx_user_id tx = u_id usr))"
proof (intro conjI allI impI)
  show "transaction_create d None form = (d, Inr ''/login'')"
    by (simp add: transaction_create_def)
next
  fix d' loc
  assume "transaction_create d (Some usr) form = (d', Inr loc)"
  from transaction_create_success [OF this]
  show "\<exists>tx. d' = d\<lparr>transactions := transactions d @ [tx]\<rparr> \<and>
            tx_org_id tx = u_org_id usr \<and> tx_user_id tx = u_id usr"
    by blast
qed

lemma coffee_created:
  "transaction_create ledger (Some bob) coffee_form =
     (ledger\<lparr>transactions := transactions ledger @
        [\<lparr> tx_id = 3, tx_org_id = 1, tx_user_id = 2, tx_account_id = 1, tx_category_id = 1,
           amount_cents = 350, tx_type = ''expense'', occurred_at = Date 2024 5 12,
           tx_note = Some ''coffee'', tx_tags = None \<rparr>]\<rparr>, Inr ''/transactions'')"
  by (simp add: transaction_create_def ledger_defs parse_3_50 strptime_2024_05_12
      next_id_def or_none_def)

theorem transaction_create_attribution_witness:
  "\<exists>tx. fst (transaction_create ledger (Some bob) coffee_form) =
           ledger\<lparr>transactions := transactions ledger @ [tx]\<rparr> \<and>
        tx_org_id tx = 1 \<and> tx_user_id tx = 2"
proof -
  have ids: "u_org_id bob = 1" "u_id bob = 2"
    by (simp_all add: bob_def)
  from transaction_create_attribution [of ledger coffee_form bob] coffee_created
  obtain tx where "fst (transaction_create ledger (Some bob) coffee_form) =
       ledger\<lparr>transactions := transactions ledger @ [tx]\<rparr>"
     "tx_org_id tx = u_org_id bob" "tx_user_id tx = u_id bob"
    by (metis fst_conv)
  with ids show ?thesis by auto
qed

section \<open>Role gate of the write paths (C3)\<close>

lemma decimal_fix_error: "decimal_fix d = Inl err \<Longrightarrow> err = Overflow"
  by (auto simp: decimal_fix_def Let_def split: decimal.splits if_splits prod.splits)

lemma mul_100_error: "mul_100 d = Inl err \<Longrightarrow> err = Overflow \<or> err = InvalidOperation"
  by (auto simp: mul_100_def split: decimal.splits if_splits dest: decimal_fix_error)

lemma quantize_1_error: "quantize_1 d = Inl err \<Longrightarrow> err = Overflow \<or> err = InvalidOperation"
  by (auto simp: quantize_1_def rescale_0_def Let_def split: decimal.splits if_splits
      dest: decimal_fix_error)

lemma int_of_decimal_error:
  "int_of_decimal d = Inl err \<Longrightarrow> err = ValueError \<or> err = OverflowError"
  by (auto simp: int_of_decimal_def Let_def split: decimal.splits)

lemma parse_amount_error:
  assumes "parse_amount_to_cents s = Inl err"
  shows "err \<in> {ValueError, InvalidOperation, Overflow, OverflowError}"
proof (cases "decimal_of_string s")
  case None
  with assms show ?thesis by (simp add: parse_amount_to_cents_def)
next
  case (Some v)
  show ?thesis
  proof (cases "mul_100 v")
    case (Inl e1)
    with assms Some mul_100_error [of v e1] show ?thesis
      by (auto simp: parse_amount_to_cents_def and_then_def)
  next
    case m: (Inr v1)
    show ?thesis
    proof (cases "quantize_1 v1")
      case (Inl e2)
      with assms Some m quantize_1_error [of v1 e2] show ?thesis
        by (auto simp: parse_amount_to_cents_def and_then_def)
    next
      case (Inr v2)
      with assms Some m int_of_decimal_error [of v2 err] show ?thesis
        by (auto simp: parse_amount_to_cents_def and_then_def)
    qed
  qed
qed

lemma transaction_create_403:
  "snd (transaction_create d (Some usr) form) = Inl (HTTPException 403) \<longleftrightarrow>
   u_role usr = ROLE_READONLY"
  using parse_amount_error [of "f_amount form" "HTTPException 403"]
  by (auto simp: transaction_create_def Let_def split: sum.splits option.splits)

lemma budgets_create_403:
  "snd (budgets_create d (Some usr) form) = Inl (HTTPException 403) \<longleftrightarrow>
   u_role usr = ROLE_READONLY"
  using parse_amount_error [of "bf_amount form" "HTTPException 403"]
  by (auto simp: budgets_create_def Let_def split: sum.splits option.splits)

text \<open>
  C3, as the code has it. \<^verbatim>\<open>require_role\<close> fails with the 403 exception exactly when the
  role is not in the allowed set. The two create handlers do not call it: they refuse
  exactly the role \<^verbatim>\<open>readonly\<close>, with the 403 exception and the store unchanged, and let
  every other role value pass the gate.
\<close>

theorem role_gate:
  "(require_role usr allowed = Inl (HTTPException 403) \<longleftrightarrow> u_role usr \<notin> allowed) \<and>
   (require_role usr allowed = Inr () \<longleftrightarrow> u_role usr \<in> allowed) \<and>
   (snd (transaction_create d (Some usr) form) = Inl (HTTPException 403) \<longleftrightarrow>
      u_role usr = ROLE_READONLY) \<and>
   (snd (budgets_create d (Some usr) bform) = Inl (HTTPException 403) \<longleftrightarrow>
      u_role usr = ROLE_READONLY) \<and>
   (u_role usr = ROLE_READONLY \<longrightarrow>
      fst (transaction_create d (Some usr) form) = d \<and>
      fst (budgets_create d (Some usr) bform) = d)"
  using transaction_create_403 [of d usr form] budgets_create_403 [of d usr bform]
  by (simp add: require_role_def transaction_create_def budgets_create_def)

theorem role_gate_witness:
  "require_role viewer {ROLE_ADMIN, ROLE_USER} = Inl (HTTPException 403) \<and>
   require_role alice {ROLE_ADMIN, ROLE_USER} = Inr () \<and>
   transaction_create ledger (Some viewer) coffee_form = (ledger, Inl (HTTPException 403)) \<and>
   budgets_create ledger (Some viewer) coffee_budget_form = (ledger, Inl (HTTPException 403))"
proof -
  have r: "u_role viewer = ROLE_READONLY" "u_role viewer \<notin> {ROLE_ADMIN, ROLE_USER}"
    "u_role alice \<in> {ROLE_ADMIN, ROLE_USER}"
    by (simp_all add: ledger_defs)
  from r role_gate [of viewer "{ROLE_ADMIN, ROLE_USER}" ledger coffee_form coffee_budget_form]
    role_gate [of alice "{ROLE_ADMIN, ROLE_USER}" ledger coffee_form coffee_budget_form]
  show ?thesis
    by (simp add: prod_eq_iff)
qed

text \<open>
  The claim as written fails for a role outside the three known ones, which
  \<^verbatim>\<open>users_create\<close> stores unchecked: a user with role \<^verbatim>\<open>guest\<close> creates a transaction.
\<close>

theorem unrecognized_role_creates_counterexample:
  "u_role guest \<noteq> ROLE_ADMIN \<and> u_role guest \<noteq> ROLE_USER \<and>
   transaction_create ledger (Some guest) coffee_form =
     (ledger\<lparr>transactions := [lunch, dinner,
        \<lparr> tx_id = 3, tx_org_id = 1, tx_user_id = 5, tx_account_id = 1, tx_category_id = 1,
           amount_cents = 350, tx_type = ''expense'', occurred_at = Date 2024 5 12,
           tx_note = Some ''coffee'', tx_tags = None \<rparr>]\<rparr>, Inr ''/transactions'')"
  by (simp add: transaction_create_def ledger_defs parse_3_50 strptime_2024_05_12
      next_id_def or_none_def)

section \<open>Budget spend (C7)\<close>





section \<open>Sign of stored amounts (C8)\<close>

lemma decimal_fix_sign:
  "decimal_fix (Finite sg c e) = Inr d' \<Longrightarrow> \<exists>c' e'. d' = Finite sg c' e'"
  by (auto simp: decimal_fix_def Let_def split: if_splits prod.splits)

lemma mul_100_sign:
  "mul_100 (Finite sg c e) = Inr d' \<Longrightarrow> \<exists>c' e'. d' = Finite sg c' e'"
  by (auto simp: mul_100_def dest: decimal_fix_sign)

lemma quantize_1_sign:
  "quantize_1 (Finite sg c e) = Inr d' \<Longrightarrow> \<exists>c' e'. d' = Finite sg c' e'"
  by (auto simp: quantize_1_def rescale_0_def Let_def split: if_splits dest: decimal_fix_sign)

lemma special_has_no_cents:
  assumes "\<forall>sg c e. v \<noteq> Finite sg c e"
  shows "and_then (and_then (mul_100 v) quantize_1) int_of_decimal \<noteq> Inr n"
  using assms
  by (cases v)
     (auto simp: and_then_def mul_100_def quantize_1_def int_of_decimal_def split: sum.splits)

lemma parse_amount_finite:
  assumes "parse_amount_to_cents s = Inr n"
  shows "\<exists>sg c e. decimal_of_string s = Some (Finite sg c e) \<and>
                  (if sg then n \<le> 0 else 0 \<le> n)"
proof (cases "decimal_of_string s")
  case None
  with assms show ?thesis by (simp add: parse_amount_to_cents_def)
next
  case (Some v)
  with assms have run: "and_then (and_then (mul_100 v) quantize_1) int_of_decimal = Inr n"
    by (simp add: parse_amount_to_cents_def)
  with special_has_no_cents [of v n] obtain sg c e where v: "v = Finite sg c e"
    by blast
  from run obtain v1 v2 where m: "mul_100 v = Inr v1" and q: "quantize_1 v1 = Inr v2"
    and i: "int_of_decimal v2 = Inr n"
    by (auto simp: and_then_def split: sum.splits)
  from m v mul_100_sign obtain c1 e1 where v1: "v1 = Finite sg c1 e1"
    by blast
  from q v1 quantize_1_sign obtain c2 e2 where v2: "v2 = Finite sg c2 e2"
    by blast
  from i v2 have "if sg then n \<le> 0 else 0 \<le> n"
    by (auto simp: int_of_decimal_def Let_def split: if_splits)
  with Some v show ?thesis by simp
qed

lemma parse_number_sign: "parse_number sg r = Some (Finite sg' c e) \<Longrightarrow> sg' = sg"
  by (auto simp: parse_number_def Let_def split: if_splits option.splits)

lemma decimal_of_string_sign:
  assumes "decimal_of_string s = Some (Finite sg c e)"
  shows "sg = minus_signed s"
proof -
  define t where "t = filter (\<lambda>c. c \<noteq> CHR ''_'') (strip s)"
  from assms show ?thesis
    unfolding decimal_of_string_def minus_signed_def t_def [symmetric] Let_def
    by (cases t) (auto split: if_splits dest: parse_number_sign)
qed

lemma transaction_create_failure:
  "snd (transaction_create d current form) = Inl err \<Longrightarrow>
   fst (transaction_create d current form) = d"
  by (auto simp: transaction_create_def Let_def split: if_splits sum.splits option.splits)

text \<open>
  C8, as the code has it. \<^verbatim>\<open>transaction_create\<close> stores the cents that
  \<^verbatim>\<open>parse_amount_to_cents\<close> returns and checks no sign. A request that fails, or that has
  no acting user, stores nothing. A successful one stores exactly one row, whose amount
  is what \<^verbatim>\<open>parse_amount_to_cents\<close> gives for the submitted text: at most 0 when the
  numeral is written with a minus sign, at least 0 otherwise. A store whose amounts are
  all non-negative stays so exactly when the new amount is not negative.
\<close>

theorem stored_amount_sign:
  "fst (transaction_create d None form) = d \<and>
   (\<forall>err. snd (transaction_create d current form) = Inl err \<longrightarrow>
      fst (transaction_create d current form) = d) \<and>
   (\<forall>d' loc. transaction_create d (Some usr) form = (d', Inr loc) \<longrightarrow>
      (\<exists>tx sg c e.
         d' = d\<lparr>transactions := transactions d @ [tx]\<rparr> \<and>
         parse_amount_to_cents (f_amount form) = Inr (amount_cents tx) \<and>
         decimal_of_string (f_amount form) = Some (Finite sg c e) \<and>
         sg = minus_signed (f_amount form) \<and>
         (if sg then amount_cents tx \<le> 0 else 0 \<le> amount_cents tx) \<and>
         ((\<forall>t \<in> set (transactions d). 0 \<le> amount_cents t) \<longrightarrow>
            ((\<forall>t \<in> set (transactions d'). 0 \<le> amount_cents t) \<longleftrightarrow>
             0 \<le> amount_cents tx))))"
proof (intro conjI allI impI)
  show "fst (transaction_create d None form) = d"
    by (simp add: transaction_create_def)
next
  fix err
  assume "snd (transaction_create d current form) = Inl err"
  then show "fst (transaction_create d current form) = d"
    by (rule transaction_create_failure)
next
  fix d' loc
  assume "transaction_create d (Some usr) form = (d', Inr loc)"
  from transaction_create_success [OF this]
  obtain tx where d': "d' = d\<lparr>transactions := transactions d @ [tx]\<rparr>"
    and p: "parse_amount_to_cents (f_amount form) = Inr (amount_cents tx)"
    by blast
  from parse_amount_finite [OF p] obtain sg c e
    where dec: "decimal_of_string (f_amount form) = Some (Finite sg c e)"
      and sgn: "if sg then amount_cents tx \<le> 0 else 0 \<le> amount_cents tx"
    by blast
  from decimal_of_string_sign [OF dec] have ms: "sg = minus_signed (f_amount form)" .
  have inv: "(\<forall>t \<in> set (transactions d). 0 \<le> amount_cents t) \<longrightarrow>
      ((\<forall>t \<in> set (transactions d'). 0 \<le> amount_cents t) \<longleftrightarrow> 0 \<le> amount_cents tx)"
    using d' by auto
  from d' p dec ms sgn inv
  show "\<exists>tx sg c e.
         d' = d\<lparr>transactions := transactions d @ [tx]\<rparr> \<and>
         parse_amount_to_cents (f_amount form) = Inr (amount_cents tx) \<and>
         decimal_of_string (f_amount form) = Some (Finite sg c e) \<and>
         sg = minus_signed (f_amount form) \<and>
         (if sg then amount_cents tx \<le> 0 else 0 \<le> amount_cents tx) \<and>
         ((\<forall>t \<in> set (transactions d). 0 \<le> amount_cents t) \<longrightarrow>
            ((\<forall>t \<in> set (transactions d'). 0 \<le> amount_cents t) \<longleftrightarrow>
             0 \<le> amount_cents tx))"
    by blast
qed

lemma small_negative_created:
  "transaction_create ledger (Some bob) (coffee_form\<lparr>f_amount := ''-0.001''\<rparr>) =
     (ledger\<lparr>transactions := transactions ledger @
        [\<lparr> tx_id = 3, tx_org_id = 1, tx_user_id = 2, tx_account_id = 1, tx_category_id = 1,
           amount_cents = 0, tx_type = ''expense'', occurred_at = Date 2024 5 12,
           tx_note = Some ''coffee'', tx_tags = None \<rparr>]\<rparr>, Inr ''/transactions'')"
  by (simp add: transaction_create_def ledger_defs parse_minus_0_001 strptime_2024_05_12
      next_id_def or_none_def)

theorem stored_amount_sign_witness:
  "minus_signed ''-0.001'' \<and> \<not> minus_signed ''5e-1'' \<and>
   parse_amount_to_cents ''5e-1'' = Inr 50 \<and>
   (\<exists>tx. fst (transaction_create ledger (Some bob) (coffee_form\<lparr>f_amount := ''-0.001''\<rparr>)) =
            ledger\<lparr>transactions := transactions ledger @ [tx]\<rparr> \<and>
          amount_cents tx = 0 \<and>
          list_all (\<lambda>t. 0 \<le> amount_cents t) (transactions ledger @ [tx]))"
proof -
  define form where "form = coffee_form\<lparr>f_amount := ''-0.001''\<rparr>"
  define d' where "d' = fst (transaction_create ledger (Some bob) form)"
  have inv: "\<forall>t \<in> set (transactions ledger). 0 \<le> amount_cents t"
    by (simp add: ledger_defs)
  have ms: "minus_signed ''-0.001''" "\<not> minus_signed ''5e-1''"
    by (simp_all add: minus_signed_def text_defs)
  have amt: "f_amount form = ''-0.001''"
    by (simp add: form_def)
  have created: "transaction_create ledger (Some bob) form = (d', Inr ''/transactions'')"
    using small_negative_created by (simp add: d'_def form_def)
  from stored_amount_sign [of ledger form "Some bob" bob]
  have "\<forall>d' loc. transaction_create ledger (Some bob) form = (d', Inr loc) \<longrightarrow>
      (\<exists>tx sg c e.
         d' = ledger\<lparr>transactions := transactions ledger @ [tx]\<rparr> \<and>
         parse_amount_to_cents (f_amount form) = Inr (amount_cents tx) \<and>
         decimal_of_string (f_amount form) = Some (Finite sg c e) \<and>
         sg = minus_signed (f_amount form) \<and>
         (if sg then amount_cents tx \<le> 0 else 0 \<le> amount_cents tx) \<and>
         ((\<forall>t \<in> set (transactions ledger). 0 \<le> amount_cents t) \<longrightarrow>
            ((\<forall>t \<in> set (transactions d'). 0 \<le> amount_cents t) \<longleftrightarrow>
             0 \<le> amount_cents tx)))"
    by (rule conjunct2 [THEN conjunct2])
  with created obtain tx where tx: "d' = ledger\<lparr>transactions := transactions ledger @ [tx]\<rparr>"
    and p: "parse_amount_to_cents (f_amount form) = Inr (amount_cents tx)"
    and keep: "(\<forall>t \<in> set (transactions ledger). 0 \<le> amount_cents t) \<longrightarrow>
        ((\<forall>t \<in> set (transactions d'). 0 \<le> amount_cents t) \<longleftrightarrow> 0 \<le> amount_cents tx)"
    by blast
  from p have zero: "amount_cents tx = 0"
    by (simp only: amt parse_minus_0_001 sum.inject)
  from tx have txs: "transactions d' = transactions ledger @ [tx]"
    by simp
  from keep inv zero have "\<forall>t \<in> set (transactions d'). 0 \<le> amount_cents t"
    by simp
  then have all: "list_all (\<lambda>t. 0 \<le> amount_cents t) (transactions ledger @ [tx])"
    by (simp only: txs list_all_iff)
  from tx have "fst (transaction_create ledger (Some bob) (coffee_form\<lparr>f_amount := ''-0.001''\<rparr>)) =
      ledger\<lparr>transactions := transactions ledger @ [tx]\<rparr>"
    by (simp only: d'_def form_def)
  with zero all ms parse_5e_minus_1 show ?thesis
    by blast
qed

text \<open>
  The claim as written fails on an amount below zero: the amount \<^verbatim>\<open>-5\<close> is stored as
  \<^verbatim>\<open>-500\<close> cents.
\<close>

theorem negative_amount_stored_counterexample:
  "transaction_create ledger (Some alice) (coffee_form\<lparr>f_amount := ''-5''\<rparr>) =
     (ledger\<lparr>transactions := [lunch, dinner,
        \<lparr> tx_id = 3, tx_org_id = 1, tx_user_id = 1, tx_account_id = 1, tx_category_id = 1,
           amount_cents = - 500, tx_type = ''expense'', occurred_at = Date 2024 5 12,
           tx_note = Some ''coffee'', tx_tags = None \<rparr>]\<rparr>, Inr ''/transactions'')"
  by (simp add: transaction_create_def ledger_defs parse_minus_5 strptime_2024_05_12
      next_id_def or_none_def)

section \<open>Keyword matching (C9)\<close>












section \<open>Rounding of amounts (C5)\<close>

lemma ndigits_pos: "0 < ndigits n"
  by (subst ndigits.simps) simp

lemma ndigits_le_iff: "0 < k \<Longrightarrow> ndigits n \<le> k \<longleftrightarrow> n < 10 ^ k"
proof (induction n arbitrary: k rule: ndigits.induct)
  case (1 n)
  show ?case
  proof (cases "n < 10")
    case True
    have "(10::nat) ^ 1 \<le> 10 ^ k"
      using "1.prems" by (intro power_increasing) auto
    with True have "n < 10 ^ k" by simp
    moreover from True have "ndigits n = 1" by (subst ndigits.simps) simp
    ultimately show ?thesis using "1.prems" by simp
  next
    case False
    then have nd: "ndigits n = Suc (ndigits (n div 10))"
      by (subst ndigits.simps) simp
    show ?thesis
    proof (cases "k = 1")
      case True
      with False nd ndigits_pos [of "n div 10"] show ?thesis by simp
    next
      case k: False
      with "1.prems" obtain j where j: "k = Suc j" "0 < j"
        by (cases k) auto
      from "1.IH" [OF False j(2)] have "ndigits (n div 10) \<le> j \<longleftrightarrow> n div 10 < 10 ^ j" .
      also have "\<dots> \<longleftrightarrow> n < 10 ^ k"
        using j(1) by (simp add: div_less_iff_less_mult mult.commute)
      finally show ?thesis using nd j(1) by simp
    qed
  qed
qed

lemma decimal_fix_unchanged:
  assumes "0 < c" and "c < 10 ^ 28" and "Etiny \<le> e" and "e \<le> Etop"
  shows "decimal_fix (Finite sg c e) = Inr (Finite sg c e)"
proof -
  from assms(2) have "ndigits c \<le> 28"
    by (simp add: ndigits_le_iff)
  with assms show ?thesis
    by (simp add: decimal_fix_def Let_def prec_def)
qed

lemma decimal_fix_zero: "decimal_fix (Finite sg 0 0) = Inr (Finite sg 0 0)"
  by (simp add: decimal_fix_def Etiny_def Emin_def Emax_def prec_def)

lemma round_half_even_div_nearest:
  assumes "0 < b"
  shows "is_nearest_even (of_nat a / of_nat b) (int (round_half_even_div a b))"
proof -
  define q r where "q = a div b" and "r = a mod b"
  have a: "a = q * b + r" by (simp add: q_def r_def)
  have rb: "r < b" using assms by (simp add: r_def)
  have bpos: "(0::rat) < of_nat b" using assms by simp
  have x: "(of_nat a :: rat) / of_nat b = of_nat q + of_nat r / of_nat b"
    using assms by (simp add: a field_simps)
  consider "2 * r < b" | "2 * r > b" | "2 * r = b" by linarith
  then show ?thesis
  proof cases
    case 1
    then have "(of_nat (2 * r) :: rat) < of_nat b" by (simp only: of_nat_less_iff)
    then have "(of_nat r :: rat) / of_nat b < 1 / 2"
      using bpos by (simp add: field_simps)
    moreover have "(0::rat) \<le> of_nat r / of_nat b" by simp
    ultimately show ?thesis
      using 1 by (simp add: is_nearest_even_def round_half_even_div_def Let_def x
          q_def [symmetric] r_def [symmetric])
  next
    case 2
    then have "(of_nat b :: rat) < of_nat (2 * r)" by (simp only: of_nat_less_iff)
    then have "(1::rat) / 2 < of_nat r / of_nat b"
      using bpos by (simp add: field_simps)
    moreover have "(of_nat r :: rat) / of_nat b < 1"
      using rb bpos by (simp add: field_simps)
    ultimately show ?thesis
      using 2 by (simp add: is_nearest_even_def round_half_even_div_def Let_def x
          q_def [symmetric] r_def [symmetric])
  next
    case 3
    then have "(of_nat (2 * r) :: rat) = of_nat b" by simp
    then have "(of_nat r :: rat) / of_nat b = 1 / 2"
      using bpos by (simp add: field_simps)
    then show ?thesis
      using 3 by (simp add: is_nearest_even_def round_half_even_div_def Let_def x
          q_def [symmetric] r_def [symmetric])
  qed
qed

lemma is_nearest_even_uminus: "is_nearest_even x n \<Longrightarrow> is_nearest_even (- x) (- n)"
  by (simp add: is_nearest_even_def abs_minus_commute)

lemma is_nearest_even_signed:
  assumes "is_nearest_even x n"
  shows "is_nearest_even ((if sg then - 1 else 1) * x) (if sg then - n else n)"
  using assms is_nearest_even_uminus [of x n] by simp

lemma round_half_even_div_le: "0 < b \<Longrightarrow> round_half_even_div a b \<le> a div b + 1"
  by (simp add: round_half_even_div_def Let_def)

text \<open>
  The conversion of a finite \<^verbatim>\<open>Decimal\<close> on which neither the precision nor the exponent
  range of the context is felt.
\<close>

lemma cents_of_finite:
  assumes "c * 100 * 10 ^ nat e < 10 ^ 28" and "- 1000026 \<le> e"
  shows "\<exists>n. and_then (and_then (mul_100 (Finite sg c e)) quantize_1) int_of_decimal = Inr n \<and>
             is_nearest_even (decimal_value (Finite sg c e) * 100) n"
proof (cases "c = 0")
  case True
  have "decimal_fix (Finite sg 0 e) = Inr (Finite sg 0 (min (max e Etiny) Emax))"
    by (simp add: decimal_fix_def)
  with True show ?thesis
    by (simp add: and_then_def mul_100_def quantize_1_def decimal_fix_zero int_of_decimal_def
        decimal_value_def is_nearest_even_def)
next
  case False
  then have cpos: "0 < c * 100" by simp
  have one: "(1::nat) \<le> 10 ^ nat e" by simp
  have c28: "c * 100 < 10 ^ 28"
  proof -
    have "c * 100 * 1 \<le> c * 100 * 10 ^ nat e" by (rule mult_le_mono2) (rule one)
    then have "c * 100 \<le> c * 100 * 10 ^ nat e" by (simp only: mult_1_right)
    then show ?thesis using assms(1) by (rule le_less_trans)
  qed
  have etiny: "Etiny \<le> e"
    using assms(2) by (simp add: Etiny_def Emin_def prec_def)
  have e27: "e < 28"
  proof (rule ccontr)
    assume "\<not> e < 28"
    then have "28 \<le> nat e" by simp
    then have a: "(10::nat) ^ 28 \<le> 10 ^ nat e" by (intro power_increasing) auto
    have "1 * 10 ^ nat e \<le> c * 100 * 10 ^ nat e"
      using cpos by (intro mult_le_mono1) simp
    then have "10 ^ nat e \<le> c * 100 * 10 ^ nat e" by (simp only: mult_1)
    with a have "(10::nat) ^ 28 \<le> c * 100 * 10 ^ nat e" by (rule le_trans)
    with assms(1) show False using leD by blast
  qed
  then have etop: "e \<le> Etop"
    by (simp add: Etop_def Emax_def prec_def)
  have mul: "mul_100 (Finite sg c e) = Inr (Finite sg (c * 100) e)"
    using decimal_fix_unchanged [OF cpos c28 etiny etop] by (simp add: mul_100_def)
  show ?thesis
  proof (cases "0 \<le> e")
    case True
    define k where "k = 28 - nat e"
    have k: "0 < k" "k + nat e = 28" using e27 True by (simp_all add: k_def)
    have "c * 100 < 10 ^ k"
    proof (rule ccontr)
      assume "\<not> c * 100 < 10 ^ k"
      then have "10 ^ k * 10 ^ nat e \<le> c * 100 * 10 ^ nat e"
        by (intro mult_le_mono1) simp
      then have "(10::nat) ^ (k + nat e) \<le> c * 100 * 10 ^ nat e"
        by (simp only: power_add)
      then have "(10::nat) ^ 28 \<le> c * 100 * 10 ^ nat e"
        by (simp only: k(2))
      with assms(1) show False using leD by blast
    qed
    then have "ndigits (c * 100) \<le> k"
      using k(1) by (simp add: ndigits_le_iff)
    then have nd: "int (ndigits (c * 100)) + e \<le> 28"
      using k(2) True by linarith
    have big: "0 < c * 100 * 10 ^ nat e" using cpos by simp
    have nd2: "ndigits (c * 100 * 10 ^ nat e) \<le> 28"
      using assms(1) by (simp add: ndigits_le_iff)
    have fix2: "decimal_fix (Finite sg (c * 100 * 10 ^ nat e) 0) =
        Inr (Finite sg (c * 100 * 10 ^ nat e) 0)"
      by (rule decimal_fix_unchanged [OF big assms(1)])
         (simp_all add: Etiny_def Etop_def Emin_def Emax_def prec_def)
    have quant: "quantize_1 (Finite sg (c * 100) e) = Inr (Finite sg (c * 100 * 10 ^ nat e) 0)"
      using False True nd nd2 fix2
      by (simp add: quantize_1_def rescale_0_def Let_def Emax_def prec_def)
    have "decimal_value (Finite sg c e) * 100 =
        (if sg then - 1 else 1) * of_nat (c * 100 * 10 ^ nat e)"
      using True by (simp add: decimal_value_def)
    then have "is_nearest_even (decimal_value (Finite sg c e) * 100)
        (if sg then - int (c * 100 * 10 ^ nat e) else int (c * 100 * 10 ^ nat e))"
      by (simp add: is_nearest_even_def)
    with mul quant True show ?thesis
      by (auto simp: and_then_def int_of_decimal_def Let_def)
  next
    case neg: False
    define j where "j = nat (- e)"
    have j: "0 < j" using neg by (simp add: j_def)
    define q where "q = round_half_even_div (c * 100) (10 ^ j)"
    have "c * 100 div 10 ^ j \<le> c * 100 div 10 ^ 1"
      using j by (intro div_le_mono2 power_increasing) auto
    also have "\<dots> < 10 ^ 27" using c28 by simp
    finally have "c * 100 div 10 ^ j + 1 < 10 ^ 28" by simp
    with round_half_even_div_le [of "10 ^ j" "c * 100"] have q28: "q < 10 ^ 28"
      by (simp add: q_def)
    then have ndq: "ndigits q \<le> 28" by (simp add: ndigits_le_iff)
    have fixq: "decimal_fix (Finite sg q 0) = Inr (Finite sg q 0)"
    proof (cases "q = 0")
      case True
      then show ?thesis by (simp add: decimal_fix_zero)
    next
      case False
      then have "0 < q" by simp
      then show ?thesis
        by (rule decimal_fix_unchanged [OF _ q28])
           (simp_all add: Etiny_def Etop_def Emin_def Emax_def prec_def)
    qed
    have nd: "ndigits (c * 100) \<le> 28" using c28 by (simp add: ndigits_le_iff)
    have quant: "quantize_1 (Finite sg (c * 100) e) = Inr (Finite sg q 0)"
      using False neg nd ndq fixq
      by (simp add: quantize_1_def rescale_0_def round_half_even_drop_def Let_def Emax_def
          prec_def q_def j_def)
    have "is_nearest_even (of_nat (c * 100) / of_nat (10 ^ j)) (int q)"
      unfolding q_def by (rule round_half_even_div_nearest) simp
    from is_nearest_even_signed [OF this, of sg]
    have "is_nearest_even (decimal_value (Finite sg c e) * 100) (if sg then - int q else int q)"
      using neg by (cases sg) (simp_all add: decimal_value_def j_def)
    with mul quant show ?thesis
      by (auto simp: and_then_def int_of_decimal_def Let_def)
  qed
qed

lemma transaction_create_no_cents:
  assumes "\<forall>n. parse_amount_to_cents (f_amount form) \<noteq> Inr n"
  shows "fst (transaction_create d current form) = d"
  using assms
  by (cases "parse_amount_to_cents (f_amount form)")
     (auto simp: transaction_create_def split: option.splits)

lemma budgets_create_no_cents:
  assumes "\<forall>n. parse_amount_to_cents (bf_amount form) \<noteq> Inr n"
  shows "fst (budgets_create d current form) = d"
  using assms
  by (cases "parse_amount_to_cents (bf_amount form)")
     (auto simp: budgets_create_def split: option.splits)

text \<open>
  C5, as the code has it. \<^verbatim>\<open>parse_amount_to_cents\<close> computes in decimal arithmetic under
  the default context of 28 significant digits. Text that the \<^verbatim>\<open>Decimal\<close> constructor
  rejects, the empty string and non-numeric text among it, fails with \<^verbatim>\<open>ValueError\<close>. A
  finite numeral with coefficient \<open>c\<close> and exponent \<open>e \<ge> -1000026\<close> such that
  \<open>c * 100 * 10 ^ max e 0 < 10 ^ 28\<close> gives its value times 100 rounded to the nearest
  integer, a tie going to the even one. When the conversion gives no cents on a write
  path, nothing is stored.
\<close>

theorem parse_amount_to_cents_rounding:
  "(decimal_of_string bad = None \<longrightarrow> parse_amount_to_cents bad = Inl ValueError) \<and>
   parse_amount_to_cents [] = Inl ValueError \<and>
   parse_amount_to_cents ''abc'' = Inl ValueError \<and>
   (decimal_of_string s = Some (Finite sg c e) \<and> c * 100 * 10 ^ nat e < 10 ^ 28 \<and>
    - 1000026 \<le> e \<longrightarrow>
      (\<exists>n. parse_amount_to_cents s = Inr n \<and>
           is_nearest_even (decimal_value (Finite sg c e) * 100) n)) \<and>
   ((\<forall>n. parse_amount_to_cents (f_amount form) \<noteq> Inr n) \<longrightarrow>
      fst (transaction_create d current form) = d) \<and>
   ((\<forall>n. parse_amount_to_cents (bf_amount bform) \<noteq> Inr n) \<longrightarrow>
      fst (budgets_create d current bform) = d)"
  using cents_of_finite [of c e sg] transaction_create_no_cents [of form d current]
    budgets_create_no_cents [of bform d current]
  by (auto simp: parse_amount_to_cents_def parse_abc [unfolded parse_amount_to_cents_def]
      parse_empty [unfolded parse_amount_to_cents_def] split: option.splits)

lemma nearest_even_of_12_5:
  assumes "is_nearest_even (25 / 2) n"
  shows "n = 12"
proof -
  from assms have le: "\<bar>of_int n - (25 / 2 :: rat)\<bar> \<le> 1 / 2"
    and tie: "\<bar>of_int n - (25 / 2 :: rat)\<bar> = 1 / 2 \<longrightarrow> even n"
    by (simp_all add: is_nearest_even_def)
  from le have "(of_int n :: rat) \<le> 13" "(12 :: rat) \<le> of_int n"
    by linarith+
  then have "n \<le> 13" "12 \<le> n"
    by simp_all
  then consider "n = 12" | "n = 13" by linarith
  then show ?thesis
  proof cases
    case 1
    then show ?thesis .
  next
    case 2
    with tie have "even (13 :: int)" by simp
    then show ?thesis by simp
  qed
qed

theorem parse_amount_to_cents_rounding_witness:
  "parse_amount_to_cents ''12,50'' = Inl ValueError \<and>
   parse_amount_to_cents ''0.125'' = Inr 12 \<and>
   fst (transaction_create ledger (Some alice) (coffee_form\<lparr>f_amount := ''12,50''\<rparr>)) = ledger \<and>
   fst (budgets_create ledger (Some alice) (coffee_budget_form\<lparr>bf_amount := ''12,50''\<rparr>)) = ledger"
proof -
  have bad: "decimal_of_string ''12,50'' = None"
    by (simp add: decimal_defs text_defs)
  have good: "decimal_of_string ''0.125'' = Some (Finite False 125 (- 3))"
    by (simp add: decimal_defs text_defs)
  have small: "(125::nat) * 100 * 10 ^ nat (- 3) < 10 ^ 28" "- 1000026 \<le> (- 3 :: int)"
    by simp_all
  have val: "decimal_value (Finite False 125 (- 3)) * 100 = 25 / 2"
    by (simp add: decimal_value_def)
  note inst = parse_amount_to_cents_rounding [of "''12,50''" "''0.125''" False 125 "- 3"
      "coffee_form\<lparr>f_amount := ''12,50''\<rparr>" ledger "Some alice"
      "coffee_budget_form\<lparr>bf_amount := ''12,50''\<rparr>"]
  from inst bad have p1: "parse_amount_to_cents ''12,50'' = Inl ValueError"
    by blast
  from inst good small obtain n where n: "parse_amount_to_cents ''0.125'' = Inr n"
    "is_nearest_even (decimal_value (Finite False 125 (- 3)) * 100) n"
    by blast
  from n(2) val have "n = 12"
    by (simp add: nearest_even_of_12_5)
  with n(1) have p2: "parse_amount_to_cents ''0.125'' = Inr 12"
    by simp
  from p1 have none: "\<forall>n. parse_amount_to_cents ''12,50'' \<noteq> Inr n"
    by simp
  from inst none have
    "fst (transaction_create ledger (Some alice) (coffee_form\<lparr>f_amount := ''12,50''\<rparr>)) = ledger"
    "fst (budgets_create ledger (Some alice) (coffee_budget_form\<lparr>bf_amount := ''12,50''\<rparr>)) =
       ledger"
    by (simp_all add: coffee_form_def coffee_budget_form_def)
  with p1 p2 show ?thesis by simp
qed

text \<open>
  The claim as written fails in both of its parts. A numeral of more than 28 significant
  digits is rounded twice, first by the product and then by \<^verbatim>\<open>quantize\<close>: the amount
  \<^verbatim>\<open>0.0050000000000000000000000000001\<close> lies above half a cent and gives 0 cents. And the
  failure is not \<^verbatim>\<open>ValueError\<close> exactly on text that is no decimal numeral: \<^verbatim>\<open>1e30\<close>
  and \<^verbatim>\<open>Infinity\<close> fail with \<^verbatim>\<open>InvalidOperation\<close>, and \<^verbatim>\<open>NaN\<close>, which the
  constructor accepts, fails with \<^verbatim>\<open>ValueError\<close>.
\<close>

theorem parse_amount_to_cents_counterexample:
  "decimal_of_string long_amount = Some (Finite False 50000000000000000000000000001 (- 31)) \<and>
   parse_amount_to_cents long_amount = Inr 0 \<and>
   \<not> is_nearest_even
       (decimal_value (Finite False 50000000000000000000000000001 (- 31)) * 100) 0 \<and>
   parse_amount_to_cents ''1e30'' = Inl InvalidOperation \<and>
   parse_amount_to_cents ''Infinity'' = Inl InvalidOperation \<and>
   decimal_of_string ''NaN'' = Some (NaN False False) \<and>
   parse_amount_to_cents ''NaN'' = Inl ValueError"
proof -
  have "decimal_of_string long_amount =
      Some (Finite False 50000000000000000000000000001 (- 31))"
    by (simp add: long_amount_def decimal_defs text_defs)
  moreover have "parse_amount_to_cents long_amount = Inr 0"
    by (simp add: long_amount_def decimal_defs text_defs)
  moreover have "\<not> is_nearest_even
      (decimal_value (Finite False 50000000000000000000000000001 (- 31)) * 100) 0"
    by (simp add: is_nearest_even_def decimal_value_def)
  moreover have "parse_amount_to_cents ''1e30'' = Inl InvalidOperation"
    by (simp add: decimal_defs text_defs)
  moreover have "decimal_of_string ''NaN'' = Some (NaN False False)"
    by (simp add: decimal_defs text_defs)
  moreover have "parse_amount_to_cents ''NaN'' = Inl ValueError"
    by (simp add: decimal_defs text_defs)
  ultimately show ?thesis
    using parse_Infinity by simp
qed

section \<open>Display of amounts (C6)\<close>

lemma bit_length_le: "a < 2 ^ k \<Longrightarrow> bit_length a \<le> k"
proof (induction a arbitrary: k rule: bit_length.induct)
  case (1 n)
  show ?case
  proof (cases "n = 0")
    case True
    then show ?thesis by (simp add: bit_length.simps)
  next
    case False
    with "1.prems" obtain j where j: "k = Suc j"
      by (cases k) auto
    with "1.prems" have "n div 2 < 2 ^ j" by auto
    from "1.IH" [OF False this] False j show ?thesis
      by (subst bit_length.simps) simp
  qed
qed

lemma is_nearest_even_unique:
  assumes "is_nearest_even x n" and "\<bar>of_int m - x\<bar> < 1 / 2"
  shows "n = m"
proof -
  from assms(1) have "\<bar>of_int n - x\<bar> \<le> 1 / 2"
    by (simp add: is_nearest_even_def)
  with assms(2) have "\<bar>(of_int n :: rat) - of_int m\<bar> < 1"
    by linarith
  then have "\<bar>(of_int (n - m) :: rat)\<bar> < 1"
    by simp
  then have "\<bar>n - m\<bar> < 1"
    by (simp only: of_int_abs [symmetric] of_int_less_1_iff)
  then show ?thesis by linarith
qed

text \<open>
  Below \<open>100 * 2 ^ 46\<close> the double nearest to \<open>a / 100\<close> has a spacing of at most
  \<open>2 ^ - 7\<close>, so that rounding it back to two decimals recovers \<open>a\<close>.
\<close>

lemma round_trip_through_double:
  assumes "7 \<le> j"
  shows "round_half_even_div (round_half_even_div (a * 2 ^ j) 100 * 100) (2 ^ j) = a"
proof -
  define m where "m = round_half_even_div (a * 2 ^ j) 100"
  have "is_nearest_even (of_nat (a * 2 ^ j) / of_nat 100) (int m)"
    unfolding m_def by (rule round_half_even_div_nearest) simp
  then have m: "\<bar>(of_nat m :: rat) - of_nat a * 2 ^ j / 100\<bar> \<le> 1 / 2"
    by (simp add: is_nearest_even_def)
  have "(2::rat) ^ 7 \<le> 2 ^ j"
    using assms by (intro power_increasing) auto
  then have big: "(128::rat) \<le> 2 ^ j" by simp
  have pos: "(0::rat) < 2 ^ j" by simp
  have "\<bar>(of_nat a :: rat) - of_nat m * 100 / 2 ^ j\<bar> =
      \<bar>of_nat m - of_nat a * 2 ^ j / 100\<bar> * (100 / 2 ^ j)"
  proof -
    have "(of_nat a :: rat) - of_nat m * 100 / 2 ^ j =
        - ((of_nat m - of_nat a * 2 ^ j / 100) * (100 / 2 ^ j))"
      by (simp add: field_simps)
    then show ?thesis
      by (simp only: abs_minus_cancel abs_mult) simp
  qed
  also have "\<dots> \<le> 1 / 2 * (100 / 2 ^ j)"
    using m by (intro mult_right_mono) simp_all
  also have "\<dots> < 1 / 2"
    using big pos by (simp add: field_simps)
  finally have near: "\<bar>(of_int (int a) :: rat) - of_nat (m * 100) / of_nat (2 ^ j)\<bar> < 1 / 2"
    by simp
  have "is_nearest_even (of_nat (m * 100) / of_nat (2 ^ j))
      (int (round_half_even_div (m * 100) (2 ^ j)))"
    by (rule round_half_even_div_nearest) simp
  from is_nearest_even_unique [OF this near]
  show ?thesis by (simp add: m_def)
qed

lemma quotient_exponent_small:
  assumes "a < 100 * 2 ^ 46"
  shows "quotient_exponent a \<le> 45"
proof -
  define d where "d = int (bit_length a) - 7"
  from assms have "a < 2 ^ 53" by simp
  then have "bit_length a \<le> 53" by (rule bit_length_le)
  then have d46: "d \<le> 46" by (simp add: d_def)
  show ?thesis
  proof (cases "d = 46")
    case True
    with assms show ?thesis
      by (simp add: quotient_exponent_def d_def [symmetric])
  next
    case False
    with d46 show ?thesis
      by (simp add: quotient_exponent_def Let_def d_def [symmetric])
  qed
qed

lemma cents_to_display_exact:
  assumes "\<bar>cents\<bar> < 100 * 2 ^ 46"
  shows "cents_to_display cents = Inr (two_decimal cents)"
proof (cases "cents = 0")
  case True
  then show ?thesis
    by (simp add: cents_to_display_def true_divide_100_def format_2f_def two_decimal_def)
next
  case False
  define a where "a = nat \<bar>cents\<bar>"
  define j where "j = nat (52 - quotient_exponent a)"
  from assms have "a < 100 * 2 ^ 46" by (simp add: a_def)
  from quotient_exponent_small [OF this] have qe: "quotient_exponent a \<le> 45" .
  then have j7: "7 \<le> j" by (simp add: j_def)
  have div: "true_divide_100 cents =
      Inr (Float (cents < 0) (round_half_even_div (a * 2 ^ j) 100) (quotient_exponent a - 52))"
    using False qe
    by (simp add: true_divide_100_def Let_def a_def [symmetric] j_def)
  show ?thesis
    using qe round_trip_through_double [OF j7, of a]
    by (simp add: cents_to_display_def div format_2f_def two_decimal_def Let_def
        a_def [symmetric] j_def)
qed

end
